theory Spec2Isabelle
  imports Complex_Main "HOL-Library.List_Lexorder" "HOL-Library.Char_ord"
begin

section \<open>The dashboard's data pipeline (streamlit\_app.py)\<close>

text \<open>
  The script reads three tables, derives a \<open>recency\<close> column, filters the orders by the
  sidebar selection and computes the metrics and chart tables of the active tab. The
  embedding keeps that order and the script's names.

  Conventions of the embedding:
  \<^item> a DataFrame with the default RangeIndex is the list of its rows; the row at position
    \<open>i\<close> carries the index label \<open>i\<close>;
  \<^item> a timestamp (datetime64[ns]) is the integer number of nanoseconds since the epoch,
    a calendar date the integer number of days since the epoch;
  \<^item> a floating-point column is a column of exact rationals, and NaN is \<open>None\<close>;
  \<^item> strings are compared as Python compares them, lexicographically by character code;
  \<^item> an exception of the script is the \<open>Inl\<close> branch of a sum.
  The columns read from the files hold no nulls (the orders file's schema).
\<close>

subsection \<open>Tables\<close>

datatype py_error = ZeroDivisionError | KeyError | IndexError

text \<open>A row of customer-segmentation.csv. Its id column is \<open>customer_unique_id\<close> too;
  the field is named \<open>customer_id\<close> here, apart from the orders' column.\<close>

record customer =
  customer_id :: string
  segment :: string
  frequency :: nat
  total_spending :: rat

text \<open>A row of e-commerce-dataset.parquet, as read (the columns the script uses).\<close>

record order =
  customer_unique_id :: string
  order_purchase_timestamp :: int
  product_category :: string
  product_category_name :: string
  payment_value :: rat

text \<open>The same row once \<open>load_data\<close> has added the \<open>recency\<close> column (NaN is \<open>None\<close>).\<close>

record order_row = order +
  recency :: "int option"

definition ns_per_day :: int where
  "ns_per_day = 86400000000000"

subsection \<open>pandas operations the script calls\<close>

text \<open>\<open>Series.max()\<close>: the largest value, NaT/NaN (\<open>None\<close>) for an empty series.\<close>

fun series_max :: "int list \<Rightarrow> int option" where
  "series_max [] = None"
| "series_max (x # xs) = Some (fold max xs x)"

text \<open>The group keys of \<open>groupby(col)\<close>: the distinct values, sorted ascending.\<close>

definition group_keys :: "('a::linorder) list \<Rightarrow> 'a list" where
  "group_keys xs = sort (remdups xs)"

text \<open>\<open>Series.mean()\<close>: NaN (\<open>None\<close>) for an empty series.\<close>

definition mean :: "rat list \<Rightarrow> rat option" where
  "mean xs = (if xs = [] then None else Some (sum_list xs / of_nat (length xs)))"

text \<open>\<open>Series.mode()\<close>: the values of highest count, sorted ascending; empty for an
  empty series.\<close>

definition mode :: "('a::linorder) list \<Rightarrow> 'a list" where
  "mode xs =
     (let ks = group_keys xs;
          m = fold max (map (count_list xs) ks) 0
      in filter (\<lambda>k. count_list xs k = m) ks)"

text \<open>\<open>s[0]\<close> on a series with a RangeIndex: the first value, KeyError when there is none.\<close>

fun item0 :: "'a list \<Rightarrow> py_error + 'a" where
  "item0 [] = Inl KeyError"
| "item0 (x # xs) = Inr x"

text \<open>\<open>df[col] = s\<close> for a series \<open>s\<close> with index \<open>0..k-1\<close> and a frame with index
  \<open>0..n-1\<close>: the values are aligned on the index label, and a label that \<open>s\<close> lacks
  gets NaN.\<close>

fun assign_recency :: "order list \<Rightarrow> int option list \<Rightarrow> order_row list" where
  "assign_recency [] s = []"
| "assign_recency (r # rs) [] = order.extend r (order_row.fields None) # assign_recency rs []"
| "assign_recency (r # rs) (v # vs) =
     order.extend r (order_row.fields v) # assign_recency rs vs"

subsection \<open>load\_data (lines 8-16)\<close>

definition max_purchase_date :: "order list \<Rightarrow> int option" where
  "max_purchase_date df = series_max (map order_purchase_timestamp df)"

text \<open>\<open>df.groupby('customer_unique_id')['order_purchase_timestamp'].max().reset_index()\<close>:
  one row per customer, sorted by customer id, with a fresh index \<open>0..k-1\<close>.\<close>

definition last_purchase_date :: "order list \<Rightarrow> (string \<times> int option) list" where
  "last_purchase_date df =
     map (\<lambda>c. (c, series_max (map order_purchase_timestamp
                   (filter (\<lambda>r. customer_unique_id r = c) df))))
       (group_keys (map customer_unique_id df))"

text \<open>\<open>(max_purchase_date - last_purchase_date[...]).dt.days\<close>: the whole days of each
  difference (floor division by one day); a difference with NaT has no days.\<close>

definition days_between :: "int option \<Rightarrow> int option \<Rightarrow> int option" where
  "days_between m l =
     (case m of None \<Rightarrow> None
      | Some a \<Rightarrow> (case l of None \<Rightarrow> None | Some b \<Rightarrow> Some ((a - b) div ns_per_day)))"

definition recency_series :: "order list \<Rightarrow> int option list" where
  "recency_series df =
     map (days_between (max_purchase_date df)) (map snd (last_purchase_date df))"

definition load_data :: "order list \<Rightarrow> order_row list" where
  "load_data df = assign_recency df (recency_series df)"

subsection \<open>The sidebar selection and the filtered views (lines 66-69)\<close>

text \<open>\<open>pd.to_datetime(d)\<close> of a calendar date: midnight of that day.\<close>

definition to_datetime :: "int \<Rightarrow> int" where
  "to_datetime d = d * ns_per_day"

text \<open>\<open>date_range\<close> is the tuple the date widget returns; the script reads its
  elements 0 and 1. \<open>product_category_sel\<close> is the list the category widget returns
  (the script's variable \<open>product_category\<close>, renamed: the column has that name).\<close>

fun filtered_df :: "order_row list \<Rightarrow> int list \<Rightarrow> string list \<Rightarrow> py_error + order_row list" where
  "filtered_df df (d0 # d1 # ds) product_category_sel =
     Inr (filter (\<lambda>r. product_category r \<in> set product_category_sel)
            (filter (\<lambda>r. to_datetime d0 \<le> order_purchase_timestamp r \<and>
                         order_purchase_timestamp r \<le> to_datetime d1) df))"
| "filtered_df df ds product_category_sel = Inl IndexError"

definition filtered_customer_df :: "customer list \<Rightarrow> string list \<Rightarrow> customer list" where
  "filtered_customer_df customer_df selected_segment =
     filter (\<lambda>r. segment r \<in> set selected_segment) customer_df"

subsection \<open>Key metrics (lines 72-75, 113)\<close>

text \<open>\<open>nunique()\<close>: the number of distinct values.\<close>

definition total_customers :: "order_row list \<Rightarrow> nat" where
  "total_customers view = length (remdups (map customer_unique_id view))"

definition total_revenue :: "order_row list \<Rightarrow> rat" where
  "total_revenue view = sum_list (map payment_value view)"

definition avg_order_value :: "order_row list \<Rightarrow> rat option" where
  "avg_order_value view = mean (map payment_value view)"

text \<open>\<open>recency > churn_threshold\<close> on a float column: False for NaN.\<close>

fun exceeds :: "int option \<Rightarrow> int \<Rightarrow> bool" where
  "exceeds None t = False"
| "exceeds (Some d) t = (t < d)"

definition churned_rows :: "order_row list \<Rightarrow> int \<Rightarrow> nat" where
  "churned_rows view churn_threshold =
     length (filter (\<lambda>r. exceeds (recency r) churn_threshold) view)"

text \<open>Line 75: both operands of \<open>/\<close> are Python ints, so a zero divisor raises.\<close>

definition churn_rate :: "order_row list \<Rightarrow> int \<Rightarrow> py_error + rat" where
  "churn_rate view churn_threshold =
     (if total_customers view = 0 then Inl ZeroDivisionError
      else Inr (of_nat (churned_rows view churn_threshold) / of_nat (total_customers view) * 100))"

text \<open>Line 113: \<open>filtered_df['product_category'].mode()[0]\<close>.\<close>

definition top_category :: "order_row list \<Rightarrow> py_error + string" where
  "top_category view = item0 (mode (map product_category view))"

subsection \<open>Chart tables (lines 117, 123)\<close>

text \<open>\<open>groupby('product_category')['payment_value'].sum().reset_index()\<close>: one row per
  category present, in the order of the group keys.\<close>

definition treemap_data :: "order_row list \<Rightarrow> (string \<times> rat) list" where
  "treemap_data view =
     map (\<lambda>c. (c, sum_list (map payment_value (filter (\<lambda>r. product_category r = c) view))))
       (group_keys (map product_category view))"

text \<open>\<open>order_purchase_timestamp.dt.date\<close>: the calendar day of a timestamp.\<close>

definition dt_date :: "order_row \<Rightarrow> int" where
  "dt_date r = order_purchase_timestamp r div ns_per_day"

text \<open>\<open>groupby([date, 'product_category']).size()\<close> has one entry per pair that occurs;
  \<open>unstack()\<close> spreads it over the sorted dates (rows) and sorted categories (columns)
  and leaves NaN where a pair has no entry.\<close>

definition group_size :: "order_row list \<Rightarrow> int \<Rightarrow> string \<Rightarrow> nat" where
  "group_size view d c =
     length (filter (\<lambda>r. dt_date r = d \<and> product_category r = c) view)"

definition unstack_cell :: "order_row list \<Rightarrow> int \<Rightarrow> string \<Rightarrow> nat option" where
  "unstack_cell view d c = (if group_size view d c = 0 then None else Some (group_size view d c))"

record heatmap =
  dates :: "int list"
  categories :: "string list"
  cells :: "nat option list list"

definition heatmap_data :: "order_row list \<Rightarrow> heatmap" where
  "heatmap_data view =
     (let ds = group_keys (map dt_date view);
          cs = group_keys (map product_category view)
      in \<lparr>dates = ds, categories = cs,
          cells = map (\<lambda>d. map (unstack_cell view d) cs) ds\<rparr>)"

subsection \<open>Notions used to state the properties\<close>

text \<open>Rows written out for the concrete inputs below: a purchase at midnight of day
  \<open>day\<close>, with both category columns equal.\<close>

abbreviation order_on :: "string \<Rightarrow> int \<Rightarrow> string \<Rightarrow> rat \<Rightarrow> order" where
  "order_on c day cat p \<equiv>
     \<lparr>customer_unique_id = c, order_purchase_timestamp = day * 86400000000000,
      product_category = cat, product_category_name = cat, payment_value = p\<rparr>"

abbreviation row_on :: "string \<Rightarrow> int \<Rightarrow> string \<Rightarrow> rat \<Rightarrow> int option \<Rightarrow> order_row" where
  "row_on c day cat p d \<equiv>
     \<lparr>customer_unique_id = c, order_purchase_timestamp = day * 86400000000000,
      product_category = cat, product_category_name = cat, payment_value = p, recency = d\<rparr>"

text \<open>The revenue of one category: the sum that \<open>treemap_data\<close> holds for its group.\<close>

definition category_revenue :: "order_row list \<Rightarrow> string \<Rightarrow> rat" where
  "category_revenue view c =
     sum_list (map payment_value (filter (\<lambda>r. product_category r = c) view))"

text \<open>The order the specification asks of the treemap series: each revenue at least the
  next one.\<close>

fun descending :: "rat list \<Rightarrow> bool" where
  "descending (x # y # ys) = (y \<le> x \<and> descending (y # ys))"
| "descending xs = True"

text \<open>The sum of a row or column of the heatmap frame as pandas takes it, NaN skipped.\<close>

fun nansum :: "nat option list \<Rightarrow> nat" where
  "nansum [] = 0"
| "nansum (None # xs) = nansum xs"
| "nansum (Some n # xs) = n + nansum xs"

section \<open>Properties\<close>

subsection \<open>Group keys, maxima and group sizes\<close>

lemma group_keys_set [simp]: "set (group_keys xs) = set xs"
  by (simp add: group_keys_def)

lemma group_keys_distinct [simp]: "distinct (group_keys xs)"
  by (simp add: group_keys_def)

lemma group_keys_sorted [simp]: "sorted (group_keys xs)"
  by (simp add: group_keys_def)

lemma group_keys_strict: "sorted_wrt (<) (group_keys xs)"
  by (simp add: strict_sorted_iff)

lemma length_group_keys: "length (group_keys xs) = card (set xs)"
  by (simp add: group_keys_def length_remdups_card_conv)

lemma fold_max_ge: "(a::nat) \<le> fold max ys a"
  by (induction ys arbitrary: a) (auto intro: order_trans [OF max.cobounded2])

lemma fold_max_upper: "y \<in> set ys \<Longrightarrow> (y::nat) \<le> fold max ys a"
proof (induction ys arbitrary: a)
  case Nil
  then show ?case by simp
next
  case (Cons z zs)
  show ?case
  proof (cases "y = z")
    case True
    have "z \<le> max z a" by simp
    also have "\<dots> \<le> fold max zs (max z a)" by (rule fold_max_ge)
    finally show ?thesis using True by simp
  next
    case False
    with Cons.prems have "y \<in> set zs" by simp
    then show ?thesis using Cons.IH by simp
  qed
qed

lemma fold_max_attained: "fold max ys (a::nat) = a \<or> fold max ys a \<in> set ys"
proof (induction ys arbitrary: a)
  case Nil
  then show ?case by simp
next
  case (Cons z zs)
  have "fold max zs (max z a) = max z a \<or> fold max zs (max z a) \<in> set zs"
    by (rule Cons.IH)
  moreover have "max z a = z \<or> max z a = a" by (simp add: max_def)
  ultimately show ?case by auto
qed

text \<open>The first mode of a non-empty series: a value of highest count, and the least of
  those.\<close>

lemma mode_nonempty:
  assumes "xs \<noteq> []"
  shows "\<exists>c cs. mode xs = c # cs \<and> c \<in> set xs \<and>
          (\<forall>k. count_list xs k \<le> count_list xs c) \<and>
          (\<forall>k. count_list xs k = count_list xs c \<longrightarrow> c \<le> k)"
proof -
  define ks where "ks = group_keys xs"
  define m where "m = fold max (map (count_list xs) ks) 0"
  have mode_eq: "mode xs = filter (\<lambda>k. count_list xs k = m) ks"
    by (simp add: mode_def ks_def m_def Let_def)
  have upper: "count_list xs k \<le> m" for k
  proof (cases "k \<in> set xs")
    case True
    then have "count_list xs k \<in> set (map (count_list xs) ks)" by (simp add: ks_def)
    then show ?thesis unfolding m_def by (rule fold_max_upper)
  next
    case False
    then show ?thesis by (simp add: count_list_0_iff)
  qed
  from assms obtain x where x: "x \<in> set xs" by (cases xs) auto
  then have "0 < count_list xs x" using count_list_0_iff [of xs x] by auto
  with upper [of x] have m_pos: "0 < m" by simp
  have "m = 0 \<or> m \<in> set (map (count_list xs) ks)"
    unfolding m_def by (rule fold_max_attained)
  with m_pos obtain k0 where k0: "k0 \<in> set xs" "count_list xs k0 = m"
    by (auto simp: ks_def)
  then have "k0 \<in> set (mode xs)" by (simp add: mode_eq ks_def)
  then obtain c cs where ccs: "mode xs = c # cs" by (cases "mode xs") auto
  have c_in: "c \<in> set (mode xs)" by (simp add: ccs)
  then have c_xs: "c \<in> set xs" and c_m: "count_list xs c = m"
    by (simp_all add: mode_eq ks_def)
  have "sorted (mode xs)" by (simp add: mode_eq ks_def sorted_wrt_filter)
  then have least: "\<forall>k \<in> set cs. c \<le> k" by (simp add: ccs)
  have "c \<le> k" if "count_list xs k = count_list xs c" for k
  proof -
    from that c_m m_pos have "k \<in> set xs" by (metis count_list_0_iff less_numeral_extra(3))
    with that c_m have "k \<in> set (mode xs)" by (simp add: mode_eq ks_def)
    with least show ?thesis by (auto simp: ccs)
  qed
  with ccs c_xs upper c_m show ?thesis by auto
qed

lemma total_customers_card: "total_customers view = card (customer_unique_id ` set view)"
  by (simp add: total_customers_def length_remdups_card_conv)

lemma total_customers_0: "(total_customers view = 0) = (view = [])"
  by (simp add: total_customers_def)

lemma treemap_fst: "map fst (treemap_data view) = group_keys (map product_category view)"
  by (simp add: treemap_data_def comp_def)

lemma nansum_unstack:
  "nansum (map (unstack_cell view d) cs) = sum_list (map (group_size view d) cs)"
  by (induction cs) (auto simp: unstack_cell_def)

lemma nansum_unstack_col:
  "nansum (map (\<lambda>d. unstack_cell view d c) ds) = sum_list (map (\<lambda>d. group_size view d c) ds)"
  by (induction ds) (auto simp: unstack_cell_def)

lemma sum_indicator:
  "distinct cs \<Longrightarrow>
   sum_list (map (\<lambda>c. if a = c then (1::nat) else 0) cs) = (if a \<in> set cs then 1 else 0)"
  by (induction cs) auto

text \<open>Counting the rows group by group, over keys that cover the rows, counts each row
  once.\<close>

lemma sum_group_counts:
  assumes "distinct cs" and "f ` set v \<subseteq> set cs"
  shows "sum_list (map (\<lambda>c. length (filter (\<lambda>r. P r \<and> f r = c) v)) cs) = length (filter P v)"
  using assms(2)
proof (induction v)
  case Nil
  then show ?case by simp
next
  case (Cons r v)
  have split: "length (filter (\<lambda>r. P r \<and> f r = c) (r # v)) =
          (if P r then (if f r = c then 1 else 0) else 0) +
          length (filter (\<lambda>r. P r \<and> f r = c) v)" for c
    by simp
  from Cons.prems have mem: "f r \<in> set cs" and sub: "f ` set v \<subseteq> set cs" by auto
  have "sum_list (map (\<lambda>c. if P r then (if f r = c then (1::nat) else 0) else 0) cs) =
          (if P r then 1 else 0)"
    using sum_indicator [OF assms(1), of "f r"] mem by (cases "P r") simp_all
  then show ?case
    unfolding split by (simp add: sum_list_addf Cons.IH [OF sub])
qed

lemma row_total:
  "sum_list (map (group_size view d) (group_keys (map product_category view))) =
     length (filter (\<lambda>r. dt_date r = d) view)"
  unfolding group_size_def
  by (rule sum_group_counts) auto

lemma col_total:
  "sum_list (map (\<lambda>d. group_size view d c) (group_keys (map dt_date view))) =
     length (filter (\<lambda>r. product_category r = c) view)"
proof -
  have "sum_list (map (\<lambda>d. length (filter (\<lambda>r. product_category r = c \<and> dt_date r = d) view))
          (group_keys (map dt_date view))) = length (filter (\<lambda>r. product_category r = c) view)"
    by (rule sum_group_counts) auto
  moreover have "group_size view d c =
      length (filter (\<lambda>r. product_category r = c \<and> dt_date r = d) view)" for d
    unfolding group_size_def by (rule arg_cong [where f = length], rule filter_cong) auto
  ultimately show ?thesis by simp
qed

subsection \<open>Recency (load\_data)\<close>

text \<open>
  Claim C1: after enrichment every order row carries the recency of its own customer
  (whole days between the dataset's latest purchase and that customer's latest
  purchase), never null, equal on all rows of one customer.

  \<open>load_data\<close> computes that number per customer, but assigns the per-customer series to
  the order rows by index label. On the specification's own scenario (customer A buying
  on 2024-01-01 and on 2024-02-01, days 19723 and 19754) the second row gets NaN; with
  customers B (day 10) and A (day 0) each row gets the other customer's recency.
\<close>

theorem load_data_recency_by_position:
  "map recency (load_data [order_on ''A'' 19723 ''electronics'' 100,
                           order_on ''A'' 19754 ''electronics'' 50]) = [Some 0, None] \<and>
   map recency (load_data [order_on ''B'' 10 ''electronics'' 100,
                           order_on ''A'' 0 ''electronics'' 50]) = [Some 10, Some 0] \<and>
   last_purchase_date [order_on ''B'' 10 ''electronics'' 100,
                       order_on ''A'' 0 ''electronics'' 50] =
     [(''A'', Some 0), (''B'', Some (10 * 86400000000000))]"
  by code_simp

subsection \<open>Key metrics\<close>

text \<open>
  Claim C2: churn\_rate is 0 when the view has no distinct customer and never raises a
  division error; otherwise it is 100 times the number of rows whose recency exceeds the
  threshold, divided by the number of distinct customers.

  A view has no customer exactly when it is empty, and line 75 then divides by zero; for
  every other view the formula holds.
\<close>

theorem churn_rate_divides_by_customers:
  "(total_customers view = 0) = (view = []) \<and>
   churn_rate view churn_threshold =
     (if view = [] then Inl ZeroDivisionError
      else Inr (100 * of_nat (length (filter (\<lambda>r. exceeds (recency r) churn_threshold) view)) /
                of_nat (card (customer_unique_id ` set view))))"
  by (simp add: churn_rate_def churned_rows_def total_customers_card total_customers_0)

text \<open>
  Claim C3 (as amended): avg\_order\_value is total\_revenue divided by the number of
  rows for a non-empty view; for the empty view it is NaN, not 0, and nothing is raised.
\<close>

theorem avg_order_value_mean:
  "avg_order_value view =
     (if view = [] then None else Some (total_revenue view / of_nat (length view)))"
  by (simp add: avg_order_value_def mean_def total_revenue_def)

theorem avg_order_value_empty_not_zero: "avg_order_value [] \<noteq> Some 0"
  by (simp add: avg_order_value_def mean_def)

text \<open>
  Claim C4: for the empty view top\_category is None and nothing is raised.

  The mode of an empty column is an empty series, and reading its element 0 raises
  KeyError.
\<close>

theorem top_category_empty_raises: "top_category [] = Inl KeyError"
  by (simp add: top_category_def mode_def group_keys_def)

text \<open>
  Claim C7: for a non-empty view top\_category is the most frequent product category,
  and among categories tied for the highest count the one that is lowest in the order of
  strings.
\<close>

theorem top_category_most_frequent:
  assumes "view \<noteq> []"
  shows "\<exists>c. top_category view = Inr c \<and> c \<in> set (map product_category view) \<and>
           (\<forall>k. count_list (map product_category view) k
                   \<le> count_list (map product_category view) c) \<and>
           (\<forall>k. count_list (map product_category view) k
                   = count_list (map product_category view) c \<longrightarrow> c \<le> k)"
proof -
  from assms have "map product_category view \<noteq> []" by simp
  from mode_nonempty [OF this] obtain c cs where
    m: "mode (map product_category view) = c # cs" and
    rest: "c \<in> set (map product_category view)"
      "\<forall>k. count_list (map product_category view) k \<le> count_list (map product_category view) c"
      "\<forall>k. count_list (map product_category view) k = count_list (map product_category view) c
            \<longrightarrow> c \<le> k"
    by blast
  from m have "top_category view = Inr c" by (simp add: top_category_def)
  with rest show ?thesis by blast
qed

theorem top_category_most_frequent_witness:
  "[row_on ''A'' 0 ''toys'' 10 None, row_on ''B'' 0 ''electronics'' 20 None,
    row_on ''C'' 1 ''toys'' 5 None, row_on ''D'' 2 ''electronics'' 5 None,
    row_on ''E'' 2 ''garden'' 5 None] \<noteq> [] \<and>
   top_category
     [row_on ''A'' 0 ''toys'' 10 None, row_on ''B'' 0 ''electronics'' 20 None,
      row_on ''C'' 1 ''toys'' 5 None, row_on ''D'' 2 ''electronics'' 5 None,
      row_on ''E'' 2 ''garden'' 5 None] = Inr ''electronics''"
proof -
  let ?view = "[row_on ''A'' 0 ''toys'' 10 None, row_on ''B'' 0 ''electronics'' 20 None,
    row_on ''C'' 1 ''toys'' 5 None, row_on ''D'' 2 ''electronics'' 5 None,
    row_on ''E'' 2 ''garden'' 5 None]"
  have ne: "?view \<noteq> []" by simp
  from top_category_most_frequent [OF ne] obtain c where
    c: "top_category ?view = Inr c"
    and least: "\<forall>k. count_list (map product_category ?view) k
                   = count_list (map product_category ?view) c \<longrightarrow> c \<le> k"
    and most: "\<forall>k. count_list (map product_category ?view) k
                   \<le> count_list (map product_category ?view) c"
    and mem: "c \<in> set (map product_category ?view)"
    by blast
  from mem have "c = ''toys'' \<or> c = ''electronics'' \<or> c = ''garden''" by auto
  moreover have "c \<noteq> ''garden''" using most [rule_format, of "''toys''"] by auto
  moreover have "c \<noteq> ''toys''" using least [rule_format, of "''electronics''"] by auto
  ultimately have "c = ''electronics''" by blast
  with c ne show ?thesis by simp
qed

text \<open>
  Claim C10: there is a view with at least one distinct customer whose churn\_rate
  exceeds 100, since the numerator counts rows and the denominator customers.

  Such a view comes out of the pipeline itself: customer A buys on days 0 and 1, B on day
  0 and C on day 400; the selection keeps A's two rows, both with a recency above 180,
  and the rate is 200.
\<close>

theorem churn_rate_can_exceed_100:
  "\<exists>df date_range sel view rate.
     filtered_df (load_data df) date_range sel = Inr view \<and>
     1 \<le> total_customers view \<and> churn_rate view 180 = Inr rate \<and> 100 < rate"
proof -
  let ?df = "[order_on ''A'' 0 ''electronics'' 10, order_on ''A'' 1 ''electronics'' 10,
              order_on ''B'' 0 ''toys'' 10, order_on ''C'' 400 ''toys'' 10]"
  let ?view = "[row_on ''A'' 0 ''electronics'' 10 (Some 399),
                row_on ''A'' 1 ''electronics'' 10 (Some 400)]"
  have 1: "filtered_df (load_data ?df) [0, 400] [''electronics''] = Inr ?view"
    by code_simp
  have 2: "1 \<le> total_customers ?view" by code_simp
  have 3: "churn_rate ?view 180 = Inr 200" by code_simp
  have 4: "(100::rat) < 200" by simp
  from 1 2 3 4 show ?thesis by blast
qed

subsection \<open>Filtering\<close>

text \<open>
  Claim C8: when the selection's list of categories is empty, the filtered orders view
  is empty, whatever the orders table and the two dates of the range.
\<close>

theorem empty_categories_empty_view:
  "filtered_df df [date_from, date_to] [] = Inr []"
  by simp

text \<open>
  Claim C9: filtering is idempotent. Filtering the filtered orders again with the same
  date range and categories, and the filtered segments table again with the same
  segments, gives the same views.
\<close>

theorem filter_idempotent:
  "(filtered_df df date_range sel = Inr view \<longrightarrow> filtered_df view date_range sel = Inr view) \<and>
   filtered_customer_df (filtered_customer_df customer_df segs) segs =
     filtered_customer_df customer_df segs"
  by (cases "(df, date_range, sel)" rule: filtered_df.cases)
    (auto simp: filtered_customer_df_def)

theorem filter_idempotent_witness:
  "filtered_df [row_on ''A'' 3 ''electronics'' 10 (Some 0), row_on ''B'' 9 ''electronics'' 10 (Some 0),
                row_on ''C'' 4 ''toys'' 10 (Some 5)] [0, 5] [''electronics'']
     = Inr [row_on ''A'' 3 ''electronics'' 10 (Some 0)] \<and>
   filtered_df [row_on ''A'' 3 ''electronics'' 10 (Some 0)] [0, 5] [''electronics'']
     = Inr [row_on ''A'' 3 ''electronics'' 10 (Some 0)] \<and>
   filtered_customer_df
     (filtered_customer_df
        [\<lparr>customer_id = ''A'', segment = ''Loyal Customers'', frequency = 2, total_spending = 150\<rparr>,
         \<lparr>customer_id = ''B'', segment = ''Lost Customers'', frequency = 1, total_spending = 10\<rparr>]
        [''Loyal Customers'']) [''Loyal Customers'']
     = [\<lparr>customer_id = ''A'', segment = ''Loyal Customers'', frequency = 2, total_spending = 150\<rparr>]"
proof -
  have h: "filtered_df [row_on ''A'' 3 ''electronics'' 10 (Some 0),
                        row_on ''B'' 9 ''electronics'' 10 (Some 0),
                        row_on ''C'' 4 ''toys'' 10 (Some 5)] [0, 5] [''electronics'']
             = Inr [row_on ''A'' 3 ''electronics'' 10 (Some 0)]"
    by code_simp
  have k: "filtered_customer_df
        [\<lparr>customer_id = ''A'', segment = ''Loyal Customers'', frequency = 2, total_spending = 150\<rparr>,
         \<lparr>customer_id = ''B'', segment = ''Lost Customers'', frequency = 1, total_spending = 10\<rparr>]
        [''Loyal Customers'']
     = [\<lparr>customer_id = ''A'', segment = ''Loyal Customers'', frequency = 2, total_spending = 150\<rparr>]"
    by code_simp
  from h k filter_idempotent [of
      "[row_on ''A'' 3 ''electronics'' 10 (Some 0), row_on ''B'' 9 ''electronics'' 10 (Some 0),
        row_on ''C'' 4 ''toys'' 10 (Some 5)]" "[0, 5]" "[''electronics'']"
      "[row_on ''A'' 3 ''electronics'' 10 (Some 0)]"
      "[\<lparr>customer_id = ''A'', segment = ''Loyal Customers'', frequency = 2, total_spending = 150\<rparr>,
        \<lparr>customer_id = ''B'', segment = ''Lost Customers'', frequency = 1, total_spending = 10\<rparr>]"
      "[''Loyal Customers'']"]
  show ?thesis by simp
qed

subsection \<open>Chart tables\<close>

text \<open>
  Claim C5 (as amended): treemap\_data lists one pair of category and revenue for every
  category of the view, the revenue being the sum of the category's payment values, in
  ascending order of the category name; the revenues follow no order of their own.
\<close>

theorem treemap_data_by_category:
  "sorted_wrt (<) (map fst (treemap_data view)) \<and>
   set (map fst (treemap_data view)) = set (map product_category view) \<and>
   map snd (treemap_data view) = map (category_revenue view) (map fst (treemap_data view))"
  by (simp add: treemap_fst group_keys_strict)
    (simp add: treemap_data_def comp_def category_revenue_def)

text \<open>With revenues 300 and 700 the category of revenue 300 comes first when its name is
  the lower one.\<close>

theorem treemap_data_not_descending:
  "treemap_data [row_on ''A'' 0 ''electronics'' 300 None,
                 row_on ''B'' 0 ''furniture_decor'' 700 None]
     = [(''electronics'', 300), (''furniture_decor'', 700)] \<and>
   \<not> descending (map snd (treemap_data
       [row_on ''A'' 0 ''electronics'' 300 None,
        row_on ''B'' 0 ''furniture_decor'' 700 None]))"
  by code_simp

text \<open>
  Claim C6 (as amended): heatmap\_data is a grid with one row per distinct date and one
  column per distinct category of the view, dates and categories each in ascending
  order; a cell holds the number of orders of its date and category, and NaN (not 0)
  when there is none; the sum of a row and of a column, NaN skipped, is the number of
  orders of that date and of that category.
\<close>

theorem heatmap_data_grid:
  "sorted_wrt (<) (dates (heatmap_data view)) \<and>
   set (dates (heatmap_data view)) = dt_date ` set view \<and>
   sorted_wrt (<) (categories (heatmap_data view)) \<and>
   set (categories (heatmap_data view)) = product_category ` set view \<and>
   length (cells (heatmap_data view)) = card (dt_date ` set view) \<and>
   list_all (\<lambda>row. length row = card (product_category ` set view)) (cells (heatmap_data view)) \<and>
   cells (heatmap_data view) =
     map (\<lambda>d. map (\<lambda>c. if group_size view d c = 0 then None else Some (group_size view d c))
                 (categories (heatmap_data view)))
       (dates (heatmap_data view)) \<and>
   map nansum (cells (heatmap_data view)) =
     map (\<lambda>d. length (filter (\<lambda>r. dt_date r = d) view)) (dates (heatmap_data view)) \<and>
   map (\<lambda>j. nansum (map (\<lambda>row. row ! j) (cells (heatmap_data view))))
       [0 ..< length (categories (heatmap_data view))] =
     map (\<lambda>c. length (filter (\<lambda>r. product_category r = c) view)) (categories (heatmap_data view))"
proof -
  define ds where "ds = group_keys (map dt_date view)"
  define cs where "cs = group_keys (map product_category view)"
  have d: "dates (heatmap_data view) = ds"
    and c: "categories (heatmap_data view) = cs"
    and g: "cells (heatmap_data view) = map (\<lambda>d. map (unstack_cell view d) cs) ds"
    by (simp_all add: heatmap_data_def Let_def ds_def cs_def)
  have 1: "sorted_wrt (<) ds" "set ds = dt_date ` set view"
    by (simp_all add: ds_def group_keys_strict)
  have 2: "sorted_wrt (<) cs" "set cs = product_category ` set view"
    by (simp_all add: cs_def group_keys_strict)
  have 3: "length cs = card (product_category ` set view)"
    by (simp add: cs_def length_group_keys)
  have 8: "length (map (\<lambda>d. map (unstack_cell view d) cs) ds) = card (dt_date ` set view)"
    by (simp add: ds_def length_group_keys)
  have 4: "list_all (\<lambda>row. length row = card (product_category ` set view))
             (map (\<lambda>d. map (unstack_cell view d) cs) ds)"
    by (simp add: list_all_iff 3)
  have 5: "map (\<lambda>d. map (unstack_cell view d) cs) ds =
      map (\<lambda>d. map (\<lambda>c. if group_size view d c = 0 then None else Some (group_size view d c)) cs) ds"
    by (simp add: unstack_cell_def)
  have 6: "map nansum (map (\<lambda>d. map (unstack_cell view d) cs) ds) =
      map (\<lambda>d. length (filter (\<lambda>r. dt_date r = d) view)) ds"
    by (simp add: nansum_unstack cs_def row_total)
  have 7: "map (\<lambda>j. nansum (map (\<lambda>row. row ! j) (map (\<lambda>d. map (unstack_cell view d) cs) ds)))
             [0 ..< length cs] =
           map (\<lambda>c. length (filter (\<lambda>r. product_category r = c) view)) cs"
  proof (rule nth_equalityI)
    show "length (map (\<lambda>j. nansum (map (\<lambda>row. row ! j)
              (map (\<lambda>d. map (unstack_cell view d) cs) ds))) [0 ..< length cs]) =
          length (map (\<lambda>c. length (filter (\<lambda>r. product_category r = c) view)) cs)"
      by simp
  next
    fix j
    assume "j < length (map (\<lambda>j. nansum (map (\<lambda>row. row ! j)
              (map (\<lambda>d. map (unstack_cell view d) cs) ds))) [0 ..< length cs])"
    then have j: "j < length cs" by simp
    then have "map (\<lambda>row. row ! j) (map (\<lambda>d. map (unstack_cell view d) cs) ds) =
            map (\<lambda>d. unstack_cell view d (cs ! j)) ds"
      by simp
    then have "nansum (map (\<lambda>row. row ! j) (map (\<lambda>d. map (unstack_cell view d) cs) ds)) =
            nansum (map (\<lambda>d. unstack_cell view d (cs ! j)) ds)"
      by (rule arg_cong)
    also have "\<dots> = length (filter (\<lambda>r. product_category r = cs ! j) view)"
      unfolding nansum_unstack_col ds_def by (rule col_total)
    finally show "map (\<lambda>j. nansum (map (\<lambda>row. row ! j)
              (map (\<lambda>d. map (unstack_cell view d) cs) ds))) [0 ..< length cs] ! j =
          map (\<lambda>c. length (filter (\<lambda>r. product_category r = c) view)) cs ! j"
      using j by simp
  qed
  show ?thesis
    unfolding d c g by (intro conjI) (rule 1 2 8 4 5 6 7)+
qed

text \<open>Two orders on different days in different categories: the two pairs of date and
  category that never occur are NaN cells.\<close>

theorem heatmap_data_absent_cell_nan:
  "heatmap_data [row_on ''A'' 0 ''electronics'' 10 None, row_on ''B'' 1 ''toys'' 10 None]
     = \<lparr>dates = [0, 1], categories = [''electronics'', ''toys''],
        cells = [[Some 1, None], [None, Some 1]]\<rparr> \<and>
   group_size [row_on ''A'' 0 ''electronics'' 10 None, row_on ''B'' 1 ''toys'' 10 None]
     0 ''toys'' = 0 \<and>
   cells (heatmap_data [row_on ''A'' 0 ''electronics'' 10 None, row_on ''B'' 1 ''toys'' 10 None])
     ! 0 ! 1 \<noteq> Some 0"
  by code_simp

end
